theory Spec2Isabelle
  imports Complex_Main
begin

section \<open>Python values used by bot.py\<close>

text \<open>
  The exceptions that the modelled code can raise, all of them subclasses of
  \<open>Exception\<close>. A function of the source that can raise returns \<open>error + 'a\<close>, with
  \<open>Inl\<close> for the exception. RequestException stands for every failure of the
  transport (connection, timeout), JSONDecodeError for a body or a file that is not
  JSON, OSError for a file that cannot be opened, read or written.
\<close>

datatype error =
  OverflowError | ValueError | ZeroDivisionError | TypeError | AttributeError
  | RequestException | JSONDecodeError | OSError

text \<open>
  A Python \<open>float\<close>. The finite doubles are idealised as reals: rounding to 53 bits is
  not modelled, the overflow of the double range is. A real of magnitude at least
  \<open>2^1024 - 2^970\<close> (half-way between the largest double and \<open>2^1024\<close>) has no finite
  double: a decimal literal that large reads as infinity, an \<open>int\<close> that large raises
  OverflowError in \<open>float(n)\<close>.
\<close>

datatype pyfloat = Finite real | PosInf | NegInf | NaN

definition DBL_OVERFLOW :: int where
  "DBL_OVERFLOW = 2 ^ 1024 - 2 ^ 970"

definition round_to_float :: "real \<Rightarrow> pyfloat" where
  "round_to_float r =
     (if real_of_int DBL_OVERFLOW \<le> r then PosInf
      else if r \<le> - real_of_int DBL_OVERFLOW then NegInf
      else Finite r)"

definition is_finite :: "pyfloat \<Rightarrow> bool" where
  "is_finite x = (case x of Finite _ \<Rightarrow> True | _ \<Rightarrow> False)"

text \<open>\<open>float(n)\<close> for an \<open>int\<close> n.\<close>

definition float_of_int :: "int \<Rightarrow> error + pyfloat" where
  "float_of_int n =
     (if DBL_OVERFLOW \<le> \<bar>n\<bar> then Inl OverflowError else Inr (Finite (real_of_int n)))"

text \<open>\<open>x > y\<close> on floats: every comparison with NaN is false.\<close>

fun py_gt :: "pyfloat \<Rightarrow> pyfloat \<Rightarrow> bool" where
  "py_gt NaN _ = False"
| "py_gt _ NaN = False"
| "py_gt (Finite a) (Finite b) = (a > b)"
| "py_gt PosInf PosInf = False"
| "py_gt PosInf _ = True"
| "py_gt _ PosInf = False"
| "py_gt NegInf _ = False"
| "py_gt _ NegInf = True"

text \<open>
  \<open>x / y\<close> on floats: a zero divisor raises ZeroDivisionError; otherwise the IEEE
  quotient (the sign of a zero is not modelled).
\<close>

fun py_truediv :: "pyfloat \<Rightarrow> pyfloat \<Rightarrow> error + pyfloat" where
  "py_truediv x (Finite b) =
     (if b = 0 then Inl ZeroDivisionError
      else case x of
        Finite a \<Rightarrow> Inr (round_to_float (a / b))
      | PosInf \<Rightarrow> Inr (if 0 < b then PosInf else NegInf)
      | NegInf \<Rightarrow> Inr (if 0 < b then NegInf else PosInf)
      | NaN \<Rightarrow> Inr NaN)"
| "py_truediv x NaN = Inr NaN"
| "py_truediv (Finite a) _ = Inr (Finite 0)"
| "py_truediv _ _ = Inr NaN"

text \<open>
  Strings are \<open>string\<close>: a character is a code point below 256. On these, the regular
  expression class \<open>\d\<close> and \<open>int()\<close> know the ten ASCII digits.
\<close>

definition isdecimal :: "char \<Rightarrow> bool" where
  "isdecimal c = (48 \<le> (of_char c :: nat) \<and> (of_char c :: nat) \<le> 57)"

definition digit_value :: "char \<Rightarrow> int" where
  "digit_value c = int (of_char c) - 48"

text \<open>\<open>s.replace(a, b)\<close> for one-character strings a and b.\<close>

definition py_replace :: "char \<Rightarrow> char \<Rightarrow> string \<Rightarrow> string" where
  "py_replace a b s = map (\<lambda>c. if c = a then b else c) s"

text \<open>
  \<open>int(s)\<close> on a string of decimal digits, as \<open>m.group(1)\<close> is; the empty string and
  any other character raise ValueError (\<open>None\<close>).
\<close>

definition decimal_value :: "string \<Rightarrow> int" where
  "decimal_value ds = foldl (\<lambda>acc c. 10 * acc + digit_value c) 0 ds"

definition py_int_of_str :: "string \<Rightarrow> int option" where
  "py_int_of_str s =
     (if s \<noteq> [] \<and> list_all isdecimal s then Some (decimal_value s) else None)"

section \<open>Configuration\<close>

text \<open>
  One entry of SEARCHES. A rule that is \<open>None\<close> in the source is \<open>None\<close> here; the price
  ceilings are finite numbers.
\<close>

record search =
  name :: string
  query :: string
  max_price :: "real option"
  max_unit_price :: "real option"
  min_quantity :: "int option"

text \<open>What \<open>item_info\<close> returns. The identifier of a listing is an int or a string.\<close>

datatype pyid = IdInt int | IdStr string

record info =
  info_id :: "pyid option"
  title :: string
  price :: pyfloat
  url :: string
  created_dt :: "int option"

section \<open>Utilities\<close>

text \<open>
  \<open>num_re = re.compile(r"(\d{1,5})")\<close> and \<open>num_re.search(text)\<close>: the match starts at
  the leftmost digit and takes the digits that follow it, five at most. The result is
  \<open>m.group(1)\<close>, or \<open>None\<close> when there is no match.
\<close>

fun num_re_search :: "string \<Rightarrow> string option" where
  "num_re_search [] = None"
| "num_re_search (c # cs) =
     (if isdecimal c then Some (take 5 (takeWhile isdecimal (c # cs)))
      else num_re_search cs)"

definition extract_quantity_from_text :: "string \<Rightarrow> int option" where
  "extract_quantity_from_text text =
     (if text = [] then None
      else case num_re_search (py_replace CHR '' '' CHR '' '' text) of
        None \<Rightarrow> None
      | Some g \<Rightarrow>
          (case py_int_of_str g of
            None \<Rightarrow> None
          | Some n \<Rightarrow> if 1 \<le> n \<and> n \<le> 5000 then Some n else None))"

section \<open>The filter\<close>

text \<open>Truth value of an optional int: \<open>None\<close> and 0 are false.\<close>

definition truthy_int :: "int option \<Rightarrow> bool" where
  "truthy_int v = (case v of None \<Rightarrow> False | Some n \<Rightarrow> n \<noteq> 0)"

text \<open>
  \<open>evaluate_item(search, info)\<close> returns the triple (ok, qty, unit_price). The three
  rules are tested in the order of the source, each \<open>return\<close> ends the evaluation.
\<close>

definition evaluate_item :: "search \<Rightarrow> info \<Rightarrow> error + (bool \<times> int option \<times> pyfloat option)" where
  "evaluate_item s i =
     (let qty = extract_quantity_from_text (title i) in
      if truthy_int (min_quantity s) \<and>
         (\<not> truthy_int qty \<or> (case (qty, min_quantity s) of (Some q, Some m) \<Rightarrow> q < m | _ \<Rightarrow> False))
      then Inr (False, qty, None)
      else if (case max_price s of None \<Rightarrow> False | Some mp \<Rightarrow> py_gt (price i) (Finite mp))
      then Inr (False, qty, None)
      else
        (case max_unit_price s of
          None \<Rightarrow> Inr (True, qty, None)
        | Some mu \<Rightarrow>
            (case qty of
              None \<Rightarrow> Inr (False, qty, None)
            | Some q \<Rightarrow>
                if q = 0 \<or> q \<le> 0 then Inr (False, qty, None)
                else
                  (case float_of_int q of
                    Inl e \<Rightarrow> Inl e
                  | Inr fq \<Rightarrow>
                      (case py_truediv (price i) fq of
                        Inl e \<Rightarrow> Inl e
                      | Inr unit_price \<Rightarrow>
                          if py_gt unit_price (Finite mu) then Inr (False, qty, Some unit_price)
                          else Inr (True, qty, Some unit_price))))))"

section \<open>Normalisation of raw items\<close>

text \<open>
  A scalar JSON value, as the fields of a raw item are: \<open>None\<close>, a bool, an int, a
  float or a string.
\<close>

datatype pyval = PNone | PBool bool | PInt int | PFloat pyfloat | PStr string

text \<open>The truth value of a scalar: \<open>None\<close>, \<open>False\<close>, zero and the empty string are false.\<close>

fun truthy :: "pyval \<Rightarrow> bool" where
  "truthy PNone = False"
| "truthy (PBool b) = b"
| "truthy (PInt n) = (n \<noteq> 0)"
| "truthy (PFloat x) = (x \<noteq> Finite 0)"
| "truthy (PStr s) = (s \<noteq> [])"

text \<open>
  \<open>str.isspace\<close> and \<open>str.isdigit\<close> on the code points below 256. The superscripts
  two, three and one (178, 179, 185) are digits for \<open>isdigit\<close>, not for \<open>float()\<close>.
\<close>

definition isspace :: "char \<Rightarrow> bool" where
  "isspace c = ((of_char c :: nat) \<in> {9, 10, 11, 12, 13, 28, 29, 30, 31, 32, 133, 160})"

definition isdigit :: "char \<Rightarrow> bool" where
  "isdigit c = (isdecimal c \<or> (of_char c :: nat) \<in> {178, 179, 185})"

definition py_strip :: "string \<Rightarrow> string" where
  "py_strip s = rev (dropWhile isspace (rev (dropWhile isspace s)))"

text \<open>
  \<open>float(s)\<close> for a string of digits, \<open>.\<close> and \<open>-\<close>, which is all that the filter of
  \<open>parse_float\<close> leaves: an optional sign, then digits with at most one point and at
  least one digit. Anything else raises ValueError. The value is rounded to a float,
  a magnitude beyond the doubles reads as infinity.
\<close>

definition decimal_number :: "bool \<Rightarrow> string \<Rightarrow> string \<Rightarrow> pyfloat" where
  "decimal_number neg ip fp =
     round_to_float ((if neg then - 1 else 1) *
       (real_of_int (decimal_value ip) + real_of_int (decimal_value fp) / 10 ^ length fp))"

definition unsigned_float :: "bool \<Rightarrow> string \<Rightarrow> error + pyfloat" where
  "unsigned_float neg body =
     (let ip = takeWhile isdecimal body; rest = dropWhile isdecimal body in
      case rest of
        [] \<Rightarrow> if ip = [] then Inl ValueError else Inr (decimal_number neg ip [])
      | c # fp \<Rightarrow>
          if c = CHR ''.'' \<and> list_all isdecimal fp \<and> (ip \<noteq> [] \<or> fp \<noteq> [])
          then Inr (decimal_number neg ip fp)
          else Inl ValueError)"

definition py_float_of_str :: "string \<Rightarrow> error + pyfloat" where
  "py_float_of_str s =
     (case s of
        [] \<Rightarrow> Inl ValueError
      | c # r \<Rightarrow> if c = CHR ''-'' then unsigned_float True r else unsigned_float False s)"

text \<open>
  \<open>parse_float(val)\<close>. A bool is an int for \<open>isinstance\<close>. Only the conversion of the
  string stands inside the \<open>try\<close>.
\<close>

definition parse_float :: "pyval \<Rightarrow> error + pyfloat" where
  "parse_float val =
     (case val of
        PNone \<Rightarrow> Inr (Finite 0)
      | PBool b \<Rightarrow> float_of_int (if b then 1 else 0)
      | PInt n \<Rightarrow> float_of_int n
      | PFloat x \<Rightarrow> Inr x
      | PStr v \<Rightarrow>
          (let s = py_replace CHR '','' CHR ''.'' (py_strip v);
               s = filter (\<lambda>ch. isdigit ch \<or> ch \<in> set ''.-'') s
           in case py_float_of_str s of Inl e \<Rightarrow> Inr (Finite 0) | Inr x \<Rightarrow> Inr x))"

text \<open>
  A raw item of the search endpoint is a JSON object. The model keeps the keys that
  \<open>item_info\<close> reads, each with the JSON types the endpoint gives it; a key that is
  absent or null is \<open>None\<close>, as \<open>item.get\<close> returns for both. The price is a scalar or
  an object whose \<open>amount\<close> is a scalar.
\<close>

datatype raw_price = PriceScalar pyval | PriceDict "string \<Rightarrow> pyval option"

record raw_item =
  item_id :: "pyid option"
  item_title :: "string option"
  item_price :: raw_price
  item_url :: "string option"
  item_path :: "string option"
  item_created_at_ts :: pyval

definition BASE :: string where
  "BASE = ''https://www.vinted.fr''"

text \<open>\<open>a or b\<close> for an optional string a: \<open>None\<close> and the empty string are false.\<close>

definition py_or :: "string option \<Rightarrow> string \<Rightarrow> string" where
  "py_or a b = (case a of None \<Rightarrow> b | Some s \<Rightarrow> if s = [] then b else s)"

text \<open>\<open>str(n)\<close> for an int, and the text of the identifier in an f-string.\<close>

fun digits_of_nat :: "nat \<Rightarrow> string" where
  "digits_of_nat n =
     (if n < 10 then [char_of (48 + n)]
      else digits_of_nat (n div 10) @ [char_of (48 + n mod 10)])"

definition py_str_int :: "int \<Rightarrow> string" where
  "py_str_int n = (if n < 0 then CHR ''-'' # digits_of_nat (nat (- n)) else digits_of_nat (nat n))"

definition py_str_id :: "pyid option \<Rightarrow> string" where
  "py_str_id i =
     (case i of None \<Rightarrow> ''None'' | Some (IdInt n) \<Rightarrow> py_str_int n | Some (IdStr s) \<Rightarrow> s)"

text \<open>
  \<open>int(s)\<close> for any string: surrounding whitespace is dropped, a sign may come first,
  then digits, where a single underscore may stand between two digits. CPython 3.11 and
  later refuse more than 4300 digits.
\<close>

fun digits_body :: "string \<Rightarrow> bool" and digits_rest :: "string \<Rightarrow> bool" where
  "digits_body [] = False"
| "digits_body (c # r) = (isdecimal c \<and> digits_rest r)"
| "digits_rest [] = True"
| "digits_rest (c # r) = (if c = CHR ''_'' then digits_body r else isdecimal c \<and> digits_rest r)"

definition INT_MAX_STR_DIGITS :: nat where
  "INT_MAX_STR_DIGITS = 4300"

definition unsigned_int :: "string \<Rightarrow> error + int" where
  "unsigned_int body =
     (if digits_body body \<and> length (filter isdecimal body) \<le> INT_MAX_STR_DIGITS
      then Inr (decimal_value (filter isdecimal body))
      else Inl ValueError)"

definition py_int_of_text :: "string \<Rightarrow> error + int" where
  "py_int_of_text s =
     (case py_strip s of
        [] \<Rightarrow> Inl ValueError
      | c # r \<Rightarrow>
          if c = CHR ''-'' then (case unsigned_int r of Inl e \<Rightarrow> Inl e | Inr n \<Rightarrow> Inr (- n))
          else if c = CHR ''+'' then unsigned_int r
          else unsigned_int (c # r))"

text \<open>\<open>int(v)\<close> for a scalar: a float is truncated towards zero.\<close>

definition py_int :: "pyval \<Rightarrow> error + int" where
  "py_int v =
     (case v of
        PNone \<Rightarrow> Inl TypeError
      | PBool b \<Rightarrow> Inr (if b then 1 else 0)
      | PInt n \<Rightarrow> Inr n
      | PFloat x \<Rightarrow>
          (case x of
             Finite r \<Rightarrow> Inr (if 0 \<le> r then \<lfloor>r\<rfloor> else \<lceil>r\<rceil>)
           | NaN \<Rightarrow> Inl ValueError
           | _ \<Rightarrow> Inl OverflowError)
      | PStr s \<Rightarrow> py_int_of_text s)"

text \<open>
  \<open>datetime.fromtimestamp(n, tz=timezone.utc)\<close>: a datetime has a year from 1 to 9999,
  a timestamp outside raises. The model keeps of a datetime its seconds since the epoch.
\<close>

definition MIN_TIMESTAMP :: int where
  "MIN_TIMESTAMP = - 62135596800"

definition MAX_TIMESTAMP :: int where
  "MAX_TIMESTAMP = 253402300799"

definition fromtimestamp :: "int \<Rightarrow> error + int" where
  "fromtimestamp n =
     (if MIN_TIMESTAMP \<le> n \<and> n \<le> MAX_TIMESTAMP then Inr n else Inl OverflowError)"

text \<open>
  \<open>item_info(item)\<close>. The exception of \<open>parse_float\<close> is not caught; those of \<open>int\<close> and
  \<open>fromtimestamp\<close> are, and leave \<open>created_dt\<close> at \<open>None\<close>.
\<close>

definition item_info :: "raw_item \<Rightarrow> error + info" where
  "item_info it =
     (let id' = item_id it;
          title' = py_or (item_title it) [];
          raw_price = item_price it
      in case (case raw_price of
                 PriceDict d \<Rightarrow> parse_float (case d ''amount'' of None \<Rightarrow> PNone | Some v \<Rightarrow> v)
               | PriceScalar v \<Rightarrow> parse_float v) of
           Inl e \<Rightarrow> Inl e
         | Inr price' \<Rightarrow>
             (let url_path = py_or (item_url it) (py_or (item_path it) (''/items/'' @ py_str_id id'));
                  url' = BASE @ url_path;
                  created_ts = item_created_at_ts it;
                  created_dt' =
                    (if truthy created_ts then
                       (case py_int created_ts of
                          Inl e \<Rightarrow> None
                        | Inr n \<Rightarrow> (case fromtimestamp n of Inl e \<Rightarrow> None | Inr d \<Rightarrow> Some d))
                     else None)
              in Inr \<lparr>info_id = id', title = title', price = price', url = url',
                      created_dt = created_dt'\<rparr>))"

text \<open>
  \<open>is_recent(created_dt)\<close>, with MAX_ITEM_AGE_MIN and the reading of the clock (seconds
  since the epoch) as parameters. A datetime is never false.
\<close>

definition is_recent :: "int \<Rightarrow> real \<Rightarrow> int option \<Rightarrow> bool" where
  "is_recent max_item_age_min now created =
     (case created of
        None \<Rightarrow> True
      | Some t \<Rightarrow> (now - real_of_int t) / 60 \<le> real_of_int max_item_age_min)"

section \<open>Input and output\<close>

text \<open>
  What the program prints, one constructor for each \<open>print\<close> of the source. Printing
  itself is taken not to fail.
\<close>

datatype message_line =
  Banner | Query_line string | Title_line string | Price_line pyfloat
  | Quantity_line int | Unit_price_line pyfloat | Url_line string

type_synonym message = "message_line list"

datatype log_line =
  WARN_save_seen error
  | Telegram_not_configured message
  | ERR_Telegram_status int
  | ERR_Telegram error
  | WARN_HTTP int string
  | ERR_search_vinted error
  | ERR_initial_scan error
  | ERR_main_loop error
  | Notifications_sent nat

text \<open>
  \<open>try: body except Exception as e: handler(e)\<close>, for a body that has no effect before
  it raises.
\<close>

definition try_except :: "error + 'a \<Rightarrow> (error \<Rightarrow> error + 'a) \<Rightarrow> error + 'a" where
  "try_except body handler = (case body of Inl e \<Rightarrow> handler e | Inr v \<Rightarrow> Inr v)"

text \<open>
  The file seen.json as \<open>load_seen\<close> finds it: absent, not JSON (an empty or truncated
  file is not), JSON that \<open>set()\<close> refuses, or a JSON array of identifiers, kept as the
  set of the identifiers it lists.
\<close>

datatype seen_file = No_file | Not_json | Json_other | Json_ids "pyid set"

definition load_seen :: "seen_file \<Rightarrow> error + pyid set" where
  "load_seen f =
     try_except
       (case f of
          No_file \<Rightarrow> Inl OSError
        | Not_json \<Rightarrow> Inl JSONDecodeError
        | Json_other \<Rightarrow> Inl TypeError
        | Json_ids ids \<Rightarrow> Inr ids)
       (\<lambda>e. Inr {})"

text \<open>
  \<open>save_seen(seen_ids)\<close>. The disk decides whether the file opens for writing and
  whether the write goes through. \<open>open(..., "w")\<close> empties the file before anything is
  written; \<open>sorted\<close> raises TypeError on a list that holds both ints and strings.
\<close>

datatype write_outcome = Open_fails | Write_fails | Write_ok

definition is_int_id :: "pyid \<Rightarrow> bool" where
  "is_int_id i = (case i of IdInt n \<Rightarrow> True | IdStr s \<Rightarrow> False)"

definition py_sorted :: "pyid set \<Rightarrow> error + pyid set" where
  "py_sorted ids =
     (if (\<exists>i \<in> ids. is_int_id i) \<and> (\<exists>i \<in> ids. \<not> is_int_id i) then Inl TypeError else Inr ids)"

definition save_seen :: "write_outcome \<Rightarrow> pyid set \<Rightarrow> seen_file \<Rightarrow> error + (seen_file \<times> log_line list)" where
  "save_seen disk seen_ids f =
     (case disk of
        Open_fails \<Rightarrow> Inr (f, [WARN_save_seen OSError])
      | _ \<Rightarrow>
          (case py_sorted seen_ids of
             Inl e \<Rightarrow> Inr (Not_json, [WARN_save_seen e])
           | Inr ids \<Rightarrow>
               if disk = Write_fails then Inr (Not_json, [WARN_save_seen OSError])
               else Inr (Json_ids ids, [])))"

text \<open>
  The reply to an HTTP request: the request raises, or a response comes back.
  \<open>r.json()\<close> raises on a body that is not JSON; the JSON is an object, whose \<open>items\<close>
  is a list of raw items or is absent, or it is something else, which has no \<open>get\<close>.
\<close>

datatype json_body = Json_object "raw_item list option" | Json_not_object

record response =
  status_code :: int
  body_text :: string
  json :: "error + json_body"

definition search_vinted :: "error + response \<Rightarrow> error + (raw_item list \<times> log_line list)" where
  "search_vinted reply =
     try_except
       (case reply of
          Inl e \<Rightarrow> Inl e
        | Inr r \<Rightarrow>
            if status_code r \<noteq> 200 then Inr ([], [WARN_HTTP (status_code r) (take 160 (body_text r))])
            else
              (case json r of
                 Inl e \<Rightarrow> Inl e
               | Inr Json_not_object \<Rightarrow> Inl AttributeError
               | Inr (Json_object items) \<Rightarrow> Inr (case items of None \<Rightarrow> [] | Some xs \<Rightarrow> xs, [])))
       (\<lambda>e. Inr ([], [ERR_search_vinted e]))"

record credentials =
  TELEGRAM_TOKEN :: string
  TELEGRAM_CHAT_ID :: string

definition send_telegram :: "credentials \<Rightarrow> error + response \<Rightarrow> message \<Rightarrow> error + log_line list" where
  "send_telegram cred reply msg =
     (if TELEGRAM_TOKEN cred = [] \<or> TELEGRAM_CHAT_ID cred = [] then Inr [Telegram_not_configured msg]
      else
        try_except
          (case reply of
             Inl e \<Rightarrow> Inl e
           | Inr r \<Rightarrow> if 300 \<le> status_code r then Inr [ERR_Telegram_status (status_code r)] else Inr [])
          (\<lambda>e. Inr [ERR_Telegram e]))"

section \<open>The scan\<close>

text \<open>
  The settings of the process: SEARCHES, MAX_ITEM_AGE_MIN and the Telegram credentials.
\<close>

record config =
  searches :: "search list"
  max_item_age_min :: int
  telegram_credentials :: credentials

text \<open>
  What the outside gives to one call of \<open>scan_once\<close>: the reply of the endpoint to the
  k-th search, the reading of the clock at the recency check of the j-th item of the
  k-th search, the reply of Telegram to the n-th message of the cycle, and what the
  disk does with a write.
\<close>

record cycle =
  replies :: "nat \<Rightarrow> error + response"
  clock :: "nat \<Rightarrow> nat \<Rightarrow> real"
  telegram :: "nat \<Rightarrow> error + response"
  disk :: write_outcome

text \<open>
  The state of the process: the global SEEN, the file and the console. Three more
  fields record the history and are read by no function: the calls of
  \<open>evaluate_item\<close> (name of the query, identifier of the listing), the calls of
  \<open>send_telegram\<close>, and the number of calls of \<open>save_seen\<close>.
\<close>

record bot =
  SEEN :: "pyid set"
  seen_json :: seen_file
  console :: "log_line list"
  evaluated :: "(string \<times> pyid) list"
  notified :: "(pyid \<times> message) list"
  saves :: nat

definition truthy_id :: "pyid \<Rightarrow> bool" where
  "truthy_id i = (case i of IdInt n \<Rightarrow> n \<noteq> 0 | IdStr s \<Rightarrow> s \<noteq> [])"

text \<open>The lines of the message for a match.\<close>

definition message_lines :: "search \<Rightarrow> info \<Rightarrow> int option \<Rightarrow> pyfloat option \<Rightarrow> message" where
  "message_lines s i qty unit_price =
     [Banner, Query_line (name s), Title_line (title i), Price_line (price i)]
     @ (if truthy_int qty then (case qty of None \<Rightarrow> [] | Some q \<Rightarrow> [Quantity_line q]) else [])
     @ (case unit_price of None \<Rightarrow> [] | Some u \<Rightarrow> [Unit_price_line u])
     @ [Url_line (url i)]"

text \<open>
  The body of \<open>for it in items\<close>, for one item: the result is the new value of
  \<open>sent_count\<close>, or the exception that leaves the scan, with the state as it then is.
\<close>

definition process_item ::
  "config \<Rightarrow> cycle \<Rightarrow> search \<Rightarrow> real \<Rightarrow> raw_item \<Rightarrow> nat \<Rightarrow> bot \<Rightarrow> (error + nat) \<times> bot" where
  "process_item cfg cyc s now it sent_count b =
     (case item_info it of
        Inl e \<Rightarrow> (Inl e, b)
      | Inr i \<Rightarrow>
          (case info_id i of
             None \<Rightarrow> (Inr sent_count, b)
           | Some ident \<Rightarrow>
               if \<not> truthy_id ident then (Inr sent_count, b)
               else if ident \<in> SEEN b then (Inr sent_count, b)
               else if \<not> is_recent (max_item_age_min cfg) now (created_dt i)
               then (Inr sent_count, b\<lparr>SEEN := insert ident (SEEN b)\<rparr>)
               else
                 (let b1 = b\<lparr>evaluated := evaluated b @ [(name s, ident)]\<rparr> in
                  case evaluate_item s i of
                    Inl e \<Rightarrow> (Inl e, b1)
                  | Inr (ok, qty, unit_price) \<Rightarrow>
                      if ok then
                        (let b2 = b1\<lparr>SEEN := insert ident (SEEN b1)\<rparr>;
                             msg = message_lines s i qty unit_price;
                             b3 = b2\<lparr>notified := notified b2 @ [(ident, msg)]\<rparr>
                         in case send_telegram (telegram_credentials cfg) (telegram cyc sent_count) msg of
                              Inl e \<Rightarrow> (Inl e, b3)
                            | Inr printed \<Rightarrow>
                                (Inr (sent_count + 1), b3\<lparr>console := console b3 @ printed\<rparr>))
                      else (Inr sent_count, b1\<lparr>SEEN := insert ident (SEEN b1)\<rparr>))))"

text \<open>\<open>for it in items\<close>, from the j-th item on, for the k-th search.\<close>

fun scan_items ::
  "config \<Rightarrow> cycle \<Rightarrow> search \<Rightarrow> nat \<Rightarrow> nat \<Rightarrow> raw_item list \<Rightarrow> nat \<Rightarrow> bot \<Rightarrow> (error + nat) \<times> bot" where
  "scan_items cfg cyc s k j [] sent_count b = (Inr sent_count, b)"
| "scan_items cfg cyc s k j (it # its) sent_count b =
     (case process_item cfg cyc s (clock cyc k j) it sent_count b of
        (Inl e, b') \<Rightarrow> (Inl e, b')
      | (Inr n, b') \<Rightarrow> scan_items cfg cyc s k (Suc j) its n b')"

text \<open>\<open>for search in SEARCHES\<close>, from the k-th search on.\<close>

fun scan_searches ::
  "config \<Rightarrow> cycle \<Rightarrow> nat \<Rightarrow> search list \<Rightarrow> nat \<Rightarrow> bot \<Rightarrow> (error + nat) \<times> bot" where
  "scan_searches cfg cyc k [] sent_count b = (Inr sent_count, b)"
| "scan_searches cfg cyc k (s # ss) sent_count b =
     (case search_vinted (replies cyc k) of
        Inl e \<Rightarrow> (Inl e, b)
      | Inr (items, printed) \<Rightarrow>
          (case scan_items cfg cyc s k 0 items sent_count (b\<lparr>console := console b @ printed\<rparr>) of
             (Inl e, b') \<Rightarrow> (Inl e, b')
           | (Inr n, b') \<Rightarrow> scan_searches cfg cyc (Suc k) ss n b'))"

text \<open>\<open>scan_once()\<close>: the searches, then \<open>save_seen\<close> when \<open>sent_count\<close> is not zero.\<close>

definition scan_once :: "config \<Rightarrow> cycle \<Rightarrow> bot \<Rightarrow> (error + nat) \<times> bot" where
  "scan_once cfg cyc b =
     (case scan_searches cfg cyc 0 (searches cfg) 0 b of
        (Inl e, b') \<Rightarrow> (Inl e, b')
      | (Inr sent_count, b') \<Rightarrow>
          if sent_count \<noteq> 0 then
            (let b1 = b'\<lparr>saves := Suc (saves b')\<rparr> in
             case save_seen (disk cyc) (SEEN b1) (seen_json b1) of
               Inl e \<Rightarrow> (Inl e, b1)
             | Inr (f, printed) \<Rightarrow>
                 (Inr sent_count, b1\<lparr>seen_json := f, console := console b1 @ printed\<rparr>))
          else (Inr sent_count, b'))"

text \<open>
  \<open>main()\<close>: the state at the start, the first scan, then the loop, of which any finite
  number of rounds is modelled. An exception that leaves a scan is printed, and the
  next scan follows.
\<close>

definition start :: "seen_file \<Rightarrow> error + bot" where
  "start f =
     (case load_seen f of
        Inl e \<Rightarrow> Inl e
      | Inr ids \<Rightarrow>
          Inr \<lparr>SEEN = ids, seen_json = f, console = [], evaluated = [], notified = [],
               saves = 0\<rparr>)"

fun main_loop :: "config \<Rightarrow> cycle list \<Rightarrow> bot \<Rightarrow> bot" where
  "main_loop cfg [] b = b"
| "main_loop cfg (cyc # cycs) b =
     (case scan_once cfg cyc b of
        (Inl e, b') \<Rightarrow> main_loop cfg cycs (b'\<lparr>console := console b' @ [ERR_main_loop e]\<rparr>)
      | (Inr sent, b') \<Rightarrow>
          main_loop cfg cycs
            (if sent \<noteq> 0 then b'\<lparr>console := console b' @ [Notifications_sent sent]\<rparr> else b'))"

definition main :: "config \<Rightarrow> seen_file \<Rightarrow> cycle \<Rightarrow> cycle list \<Rightarrow> error + bot" where
  "main cfg f first cycs =
     (case start f of
        Inl e \<Rightarrow> Inl e
      | Inr b0 \<Rightarrow>
          (case scan_once cfg first b0 of
             (Inl e, b) \<Rightarrow> Inr (main_loop cfg cycs (b\<lparr>console := console b @ [ERR_initial_scan e]\<rparr>))
           | (Inr sent, b) \<Rightarrow> Inr (main_loop cfg cycs b)))"

section \<open>Vocabulary of the properties\<close>

text \<open>
  \<open>first_digit_run text ds\<close>: ds is the first run of one to five digits of the text. No
  digit stands before it, and it ends after five digits, at the end of the text or
  before a character that is not a digit.
\<close>

definition first_digit_run :: "string \<Rightarrow> string \<Rightarrow> bool" where
  "first_digit_run text ds =
     (\<exists>pre post. text = pre @ ds @ post \<and> list_all (\<lambda>c. \<not> isdecimal c) pre \<and>
        ds \<noteq> [] \<and> list_all isdecimal ds \<and> length ds \<le> 5 \<and>
        (length ds = 5 \<or> post = [] \<or> \<not> isdecimal (hd post)))"

text \<open>
  The three rules of \<open>evaluate_item\<close>, each as the condition under which the source
  returns a rejection: the query, the price and the extracted quantity decide.
\<close>

definition min_quantity_rejects :: "search \<Rightarrow> int option \<Rightarrow> bool" where
  "min_quantity_rejects s qty =
     (case min_quantity s of
        None \<Rightarrow> False
      | Some m \<Rightarrow> m \<noteq> 0 \<and> (case qty of None \<Rightarrow> True | Some q \<Rightarrow> q < m))"




text \<open>
  \<open>untouched i b b'\<close>: from the state b to the state b', the listing i was neither
  passed to \<open>evaluate_item\<close> nor notified. \<open>once b\<close>: no listing was evaluated twice or
  notified twice, and every listing that was evaluated or notified is in SEEN.
\<close>

definition untouched :: "pyid \<Rightarrow> bot \<Rightarrow> bot \<Rightarrow> bool" where
  "untouched i b b' =
     (\<exists>es ns. evaluated b' = evaluated b @ es \<and> i \<notin> snd ` set es \<and>
        notified b' = notified b @ ns \<and> i \<notin> fst ` set ns)"

definition once :: "bot \<Rightarrow> bool" where
  "once b =
     (distinct (map snd (evaluated b)) \<and> snd ` set (evaluated b) \<subseteq> SEEN b \<and>
      distinct (map fst (notified b)) \<and> fst ` set (notified b) \<subseteq> SEEN b)"






section \<open>Properties of the utilities\<close>

lemma py_replace_same: "py_replace a a s = s"
  by (induction s) (simp_all add: py_replace_def)

lemma num_re_search_None: "num_re_search s = None \<longleftrightarrow> list_all (\<lambda>c. \<not> isdecimal c) s"
  by (induction s) auto

lemma num_re_search_skip:
  "list_all (\<lambda>c. \<not> isdecimal c) pre \<Longrightarrow> num_re_search (pre @ r) = num_re_search r"
  by (induction pre) auto

lemma takeWhile_run:
  "list_all P ds \<Longrightarrow> post = [] \<or> \<not> P (hd post) \<Longrightarrow> takeWhile P (ds @ post) = ds"
  by (induction ds) (auto simp: takeWhile_eq_Nil_iff split: list.splits)

lemma takeWhile_run_long:
  "list_all P ds \<Longrightarrow> takeWhile P (ds @ post) = ds @ takeWhile P post"
  by (induction ds) auto

lemma run_found:
  assumes "ds \<noteq> []" "list_all isdecimal ds" "length ds \<le> 5"
    "length ds = 5 \<or> post = [] \<or> \<not> isdecimal (hd post)"
  shows "num_re_search (ds @ post) = Some ds"
proof -
  obtain c cs where ds: "ds = c # cs" using assms(1) by (cases ds) auto
  have c: "isdecimal c" using assms(2) ds by simp
  have "take 5 (takeWhile isdecimal (ds @ post)) = ds"
  proof (cases "length ds = 5")
    case True
    then show ?thesis using assms(2) by (simp add: takeWhile_run_long)
  next
    case False
    then have "takeWhile isdecimal (ds @ post) = ds"
      using assms(2,4) by (simp add: takeWhile_run)
    then show ?thesis using assms(3) by simp
  qed
  then show ?thesis using c ds by simp
qed

lemma run_of_search:
  assumes "isdecimal c"
  shows "\<exists>post. c # cs = take 5 (takeWhile isdecimal (c # cs)) @ post \<and>
      (length (take 5 (takeWhile isdecimal (c # cs))) = 5 \<or> post = [] \<or> \<not> isdecimal (hd post))"
proof -
  let ?r = "c # cs"
  let ?w = "takeWhile isdecimal ?r"
  let ?g = "take 5 ?w"
  have split: "?r = ?g @ (drop 5 ?w @ dropWhile isdecimal ?r)"
    by (metis append.assoc append_take_drop_id takeWhile_dropWhile_id)
  show ?thesis
  proof (cases "length ?w \<le> 5")
    case True
    then have g: "?g = ?w" by simp
    have "?r = ?g @ dropWhile isdecimal ?r" using g by (metis takeWhile_dropWhile_id)
    moreover have "dropWhile isdecimal ?r = [] \<or> \<not> isdecimal (hd (dropWhile isdecimal ?r))"
      by (metis hd_dropWhile)
    ultimately show ?thesis by blast
  next
    case False
    then have "length ?g = 5" by simp
    then show ?thesis using split by blast
  qed
qed

lemma search_run:
  "num_re_search s = Some g \<Longrightarrow> first_digit_run s g"
proof (induction s)
  case Nil
  then show ?case by simp
next
  case (Cons c cs)
  show ?case
  proof (cases "isdecimal c")
    case True
    then have g: "g = take 5 (takeWhile isdecimal (c # cs))" using Cons.prems by simp
    obtain post where p: "c # cs = g @ post"
      "length g = 5 \<or> post = [] \<or> \<not> isdecimal (hd post)"
      using run_of_search [OF True, of cs] g by blast
    have "g \<noteq> []" using True g by simp
    moreover have "list_all isdecimal g"
      unfolding g list_all_iff by (metis in_set_takeD set_takeWhileD)
    moreover have "length g \<le> 5" using g by simp
    ultimately show ?thesis unfolding first_digit_run_def
      using p by (intro exI [of _ "[]"] exI [of _ post]) simp
  next
    case False
    then have "num_re_search cs = Some g" using Cons.prems by simp
    then have "first_digit_run cs g" by (rule Cons.IH)
    then obtain pre post where "cs = pre @ g @ post" "list_all (\<lambda>c. \<not> isdecimal c) pre"
      "g \<noteq> []" "list_all isdecimal g" "length g \<le> 5"
      "length g = 5 \<or> post = [] \<or> \<not> isdecimal (hd post)"
      unfolding first_digit_run_def by blast
    then show ?thesis unfolding first_digit_run_def
      using False by (intro exI [of _ "c # pre"] exI [of _ post]) simp
  qed
qed

lemma num_re_search_Some:
  "num_re_search s = Some g \<longleftrightarrow> first_digit_run s g"
proof
  assume "num_re_search s = Some g"
  then show "first_digit_run s g" by (rule search_run)
next
  assume "first_digit_run s g"
  then obtain pre post where "s = pre @ g @ post" "list_all (\<lambda>c. \<not> isdecimal c) pre"
      "g \<noteq> []" "list_all isdecimal g" "length g \<le> 5"
      "length g = 5 \<or> post = [] \<or> \<not> isdecimal (hd post)"
      unfolding first_digit_run_def by blast
  then show "num_re_search s = Some g"
    by (simp add: num_re_search_skip run_found)
qed

lemma first_digit_run_Nil: "\<not> first_digit_run [] ds"
  by (simp add: first_digit_run_def)

lemma py_int_of_run: "first_digit_run text ds \<Longrightarrow> py_int_of_str ds = Some (decimal_value ds)"
  by (auto simp: first_digit_run_def py_int_of_str_def)

lemma first_digit_run_unique:
  "first_digit_run text ds \<Longrightarrow> first_digit_run text ds' \<Longrightarrow> ds = ds'"
  by (metis num_re_search_Some option.inject)

lemma no_run_iff: "(\<forall>ds. \<not> first_digit_run text ds) \<longleftrightarrow> list_all (\<lambda>c. \<not> isdecimal c) text"
  by (metis num_re_search_None num_re_search_Some not_Some_eq)

text \<open>
  Claim C8. \<open>extract_quantity_from_text\<close> returns a value n exactly when the first run
  of one to five digits of the text reads as the integer n and n lies in [1, 5000]. It
  returns \<open>None\<close> exactly when the text is empty, has no digit, or has a first run that
  reads as a value outside [1, 5000]. It never returns zero.
\<close>

theorem extract_quantity_first_run:
  "(extract_quantity_from_text text = Some n \<longleftrightarrow>
      (\<exists>ds. first_digit_run text ds \<and> decimal_value ds = n \<and> 1 \<le> n \<and> n \<le> 5000))
   \<and> (extract_quantity_from_text text = None \<longleftrightarrow>
      (text = [] \<or> list_all (\<lambda>c. \<not> isdecimal c) text \<or>
       (\<exists>ds. first_digit_run text ds \<and> (decimal_value ds < 1 \<or> 5000 < decimal_value ds))))
   \<and> extract_quantity_from_text text \<noteq> Some 0"
proof (cases "num_re_search text")
  case None
  then have no: "list_all (\<lambda>c. \<not> isdecimal c) text" by (simp add: num_re_search_None)
  then have "\<And>ds. \<not> first_digit_run text ds" using no_run_iff by blast
  moreover have "extract_quantity_from_text text = None"
    using None by (simp add: extract_quantity_from_text_def py_replace_same)
  ultimately show ?thesis using no by simp
next
  case (Some g)
  then have run: "first_digit_run text g" by (simp add: num_re_search_Some)
  then have ne: "text \<noteq> []" using first_digit_run_Nil by blast
  have digit: "\<not> list_all (\<lambda>c. \<not> isdecimal c) text" using run no_run_iff by blast
  have only: "\<And>ds. first_digit_run text ds \<longleftrightarrow> ds = g"
    using run first_digit_run_unique by blast
  have ex: "extract_quantity_from_text text =
      (if 1 \<le> decimal_value g \<and> decimal_value g \<le> 5000 then Some (decimal_value g) else None)"
    using Some ne py_int_of_run [OF run]
    by (simp add: extract_quantity_from_text_def py_replace_same)
  show ?thesis unfolding ex only using ne digit by auto
qed

lemma extract_quantity_bounds:
  "extract_quantity_from_text text = Some n \<Longrightarrow> 1 \<le> n \<and> n \<le> 5000"
  by (auto simp: extract_quantity_from_text_def split: option.splits if_splits)


theorem extract_quantity_first_run_witness:
  "extract_quantity_from_text ''lot 100 cartes pokemon'' = Some 100
   \<and> (\<exists>ds. first_digit_run ''lot 100 cartes pokemon'' ds \<and> decimal_value ds = 100)
   \<and> extract_quantity_from_text ''lot 123456 cartes'' = None
   \<and> (\<exists>ds. first_digit_run ''lot 123456 cartes'' ds \<and>
         (decimal_value ds < 1 \<or> 5000 < decimal_value ds))"
proof -
  have a: "extract_quantity_from_text ''lot 100 cartes pokemon'' = Some 100"
    by code_simp
  have b: "extract_quantity_from_text ''lot 123456 cartes'' = None"
    by code_simp
  have c: "\<not> list_all (\<lambda>c. \<not> isdecimal c) ''lot 123456 cartes''"
    by code_simp
  have d: "''lot 123456 cartes'' \<noteq> []" by simp
  from a extract_quantity_first_run [of "''lot 100 cartes pokemon''" 100]
  have 1: "\<exists>ds. first_digit_run ''lot 100 cartes pokemon'' ds \<and> decimal_value ds = 100"
    by blast
  from b c d extract_quantity_first_run [of "''lot 123456 cartes''" 0]
  have 2: "\<exists>ds. first_digit_run ''lot 123456 cartes'' ds \<and>
      (decimal_value ds < 1 \<or> 5000 < decimal_value ds)"
    by blast
  show ?thesis using a b 1 2 by blast
qed





section \<open>Properties of the filter\<close>

lemma truthy_quantity:
  "truthy_int (extract_quantity_from_text t) \<longleftrightarrow> extract_quantity_from_text t \<noteq> None"
  using extract_quantity_bounds [of t]
  by (cases "extract_quantity_from_text t") (auto simp: truthy_int_def)


lemma evaluate_item_min:
  "min_quantity_rejects s (extract_quantity_from_text (title i)) \<Longrightarrow>
   evaluate_item s i = Inr (False, extract_quantity_from_text (title i), None)"
  using extract_quantity_bounds [of "title i"]
  by (auto simp: evaluate_item_def min_quantity_rejects_def truthy_int_def Let_def
      split: option.splits)







lemma title_50: "extract_quantity_from_text ''lot 50 cartes pokemon'' = Some 50"
  by code_simp


lemma title_none: "extract_quantity_from_text ''lego vrac'' = None"
  by code_simp


text \<open>
  A query whose min_quantity is 0 has the field set, and the source tests its truth
  value: the rule is skipped, and a title with no quantity is matched.
\<close>

theorem min_quantity_zero_counterexample:
  "min_quantity \<lparr>name = ''Lego vrac'', query = ''lego vrac lot'', max_price = None,
      max_unit_price = None, min_quantity = Some 0\<rparr> = Some 0
   \<and> extract_quantity_from_text ''lego vrac'' = None
   \<and> evaluate_item
     \<lparr>name = ''Lego vrac'', query = ''lego vrac lot'', max_price = None,
      max_unit_price = None, min_quantity = Some 0\<rparr>
     \<lparr>info_id = Some (IdInt 3), title = ''lego vrac'', price = Finite 10,
      url = ''https://www.vinted.fr/items/3'', created_dt = None\<rparr>
   = Inr (True, None, None)"
  by (simp add: evaluate_item_def title_none truthy_int_def)

text \<open>
  Claim C3, amended. For every query whose min_quantity is set to a value other than
  zero and every listing, \<open>evaluate_item\<close> rejects the listing unless a quantity was
  extracted from its title and that quantity is at least min_quantity.
\<close>

theorem min_quantity_rule:
  "min_quantity s = Some m \<Longrightarrow> m \<noteq> 0 \<Longrightarrow>
   \<not> (\<exists>n. extract_quantity_from_text (title i) = Some n \<and> m \<le> n) \<Longrightarrow>
   evaluate_item s i = Inr (False, extract_quantity_from_text (title i), None)"
proof -
  assume a: "min_quantity s = Some m" "m \<noteq> 0"
    "\<not> (\<exists>n. extract_quantity_from_text (title i) = Some n \<and> m \<le> n)"
  have "min_quantity_rejects s (extract_quantity_from_text (title i))"
  proof (cases "extract_quantity_from_text (title i)")
    case None
    then show ?thesis using a by (simp add: min_quantity_rejects_def)
  next
    case (Some q)
    then have "q < m" using a(3) by auto
    then show ?thesis using a Some by (simp add: min_quantity_rejects_def)
  qed
  then show ?thesis by (rule evaluate_item_min)
qed

theorem min_quantity_rule_witness:
  "evaluate_item
     \<lparr>name = ''Pokemon bulk'', query = ''lot cartes pokemon'', max_price = None,
      max_unit_price = Some (6 / 100), min_quantity = Some 80\<rparr>
     \<lparr>info_id = Some (IdInt 1), title = ''lot 50 cartes pokemon'', price = Finite 2,
      url = ''https://www.vinted.fr/items/1'', created_dt = None\<rparr>
   = Inr (False, Some 50, None)"
  using min_quantity_rule [of
      "\<lparr>name = ''Pokemon bulk'', query = ''lot cartes pokemon'', max_price = None,
        max_unit_price = Some (6 / 100), min_quantity = Some 80\<rparr>" 80
      "\<lparr>info_id = Some (IdInt 1), title = ''lot 50 cartes pokemon'', price = Finite 2,
        url = ''https://www.vinted.fr/items/1'', created_dt = None\<rparr>"]
  by (simp add: title_50)







section \<open>Properties of parse_float\<close>


























section \<open>Properties of item_info\<close>

lemma parse_float_big_int: "parse_float (PInt (10 ^ 400)) = Inl OverflowError"
  by (simp add: parse_float_def float_of_int_def DBL_OVERFLOW_def)

lemma item_info_raises:
  "item_price it = PriceScalar v \<Longrightarrow> parse_float v = Inl e \<Longrightarrow> item_info it = Inl e"
  by (simp add: item_info_def)

text \<open>
  Claim C10. The price of a raw item can be an int, and \<open>parse_float\<close> converts an int
  outside its \<open>try\<close>: for the price \<open>10 ** 400\<close> the conversion raises OverflowError, and
  \<open>item_info\<close> raises with it instead of returning a listing.
\<close>

theorem item_info_overflow:
  "item_info
     \<lparr>item_id = Some (IdInt 1), item_title = Some ''lot 100 cartes pokemon'',
      item_price = PriceScalar (PInt (10 ^ 400)), item_url = None, item_path = None,
      item_created_at_ts = PNone\<rparr>
   = Inl OverflowError"
  by (rule item_info_raises [OF _ parse_float_big_int]) simp

lemma item_info_Inr:
  assumes "parse_float (case item_price it of
             PriceDict d \<Rightarrow> (case d ''amount'' of None \<Rightarrow> PNone | Some v \<Rightarrow> v)
           | PriceScalar v \<Rightarrow> v) = Inr p"
  shows "\<exists>c. item_info it =
     Inr \<lparr>info_id = item_id it, title = py_or (item_title it) [], price = p,
          url = BASE @ py_or (item_url it) (py_or (item_path it) (''/items/'' @ py_str_id (item_id it))),
          created_dt = c\<rparr>
     \<and> (\<not> truthy (item_created_at_ts it) \<longrightarrow> c = None)
     \<and> (\<forall>e. py_int (item_created_at_ts it) = Inl e \<longrightarrow> c = None)"
  using assms by (cases "item_price it") (auto simp: item_info_def Let_def split: sum.splits)

section \<open>Properties of the input and output\<close>

lemma search_vinted_total: "\<exists>items printed. search_vinted reply = Inr (items, printed)"
  by (auto simp: search_vinted_def try_except_def split: sum.splits json_body.splits)

lemma send_telegram_total: "\<exists>printed. send_telegram cred reply msg = Inr printed"
  by (auto simp: send_telegram_def try_except_def split: sum.splits)

lemma load_seen_total: "\<exists>ids. load_seen f = Inr ids"
  by (cases f) (simp_all add: load_seen_def try_except_def)

lemma save_seen_total: "\<exists>f' printed. save_seen d ids f = Inr (f', printed)"
  by (cases d) (auto simp: save_seen_def split: sum.splits)


lemma main_total: "\<exists>b. main cfg f first cycs = Inr b"
proof -
  obtain ids where "load_seen f = Inr ids" using load_seen_total by blast
  then show ?thesis
    by (cases "scan_once cfg first \<lparr>SEEN = ids, seen_json = f, console = [], evaluated = [],
          notified = [], saves = 0\<rparr>")
      (auto simp: main_def start_def split: sum.splits)
qed

text \<open>
  Claim C9. None of the four operations that perform input or output raises:
  \<open>search_vinted\<close> returns the empty list when the request raises, when the status is
  not 200, when the body is not JSON and when the JSON is not an object;
  \<open>send_telegram\<close> prints and returns when the credentials are missing, when the
  request raises and when the status is 300 or more; \<open>load_seen\<close> returns the empty set
  for a file that is absent or unusable; \<open>save_seen\<close> prints a warning and returns when
  the file cannot be opened or written. And \<open>main\<close> itself never raises, whatever the
  scans do.
\<close>

theorem io_failures_contained:
  "(\<exists>items printed. search_vinted reply = Inr (items, printed))
   \<and> (\<forall>e. reply = Inl e \<longrightarrow> search_vinted reply = Inr ([], [ERR_search_vinted e]))
   \<and> (\<forall>r. reply = Inr r \<and> status_code r \<noteq> 200 \<longrightarrow>
         search_vinted reply = Inr ([], [WARN_HTTP (status_code r) (take 160 (body_text r))]))
   \<and> (\<forall>r e. reply = Inr r \<and> status_code r = 200 \<and> json r = Inl e \<longrightarrow>
         search_vinted reply = Inr ([], [ERR_search_vinted e]))
   \<and> (\<forall>r. reply = Inr r \<and> status_code r = 200 \<and> json r = Inr Json_not_object \<longrightarrow>
         search_vinted reply = Inr ([], [ERR_search_vinted AttributeError]))
   \<and> (\<exists>printed. send_telegram cred answer msg = Inr printed)
   \<and> (TELEGRAM_TOKEN cred = [] \<or> TELEGRAM_CHAT_ID cred = [] \<longrightarrow>
         send_telegram cred answer msg = Inr [Telegram_not_configured msg])
   \<and> (\<forall>e. TELEGRAM_TOKEN cred \<noteq> [] \<and> TELEGRAM_CHAT_ID cred \<noteq> [] \<and> answer = Inl e \<longrightarrow>
         send_telegram cred answer msg = Inr [ERR_Telegram e])
   \<and> (\<forall>r. TELEGRAM_TOKEN cred \<noteq> [] \<and> TELEGRAM_CHAT_ID cred \<noteq> [] \<and> answer = Inr r \<and>
         300 \<le> status_code r \<longrightarrow>
         send_telegram cred answer msg = Inr [ERR_Telegram_status (status_code r)])
   \<and> (\<exists>ids. load_seen f = Inr ids)
   \<and> (f = No_file \<or> f = Not_json \<or> f = Json_other \<longrightarrow> load_seen f = Inr {})
   \<and> (\<exists>f' printed. save_seen d seen_ids f = Inr (f', printed))
   \<and> (d = Open_fails \<longrightarrow> save_seen d seen_ids f = Inr (f, [WARN_save_seen OSError]))
   \<and> (d = Write_fails \<longrightarrow> (\<exists>e. save_seen d seen_ids f = Inr (Not_json, [WARN_save_seen e])))
   \<and> (\<exists>b. main cfg f first cycs = Inr b)"
proof -
  have s: "\<forall>e. reply = Inl e \<longrightarrow> search_vinted reply = Inr ([], [ERR_search_vinted e])"
    "\<forall>r. reply = Inr r \<and> status_code r \<noteq> 200 \<longrightarrow>
         search_vinted reply = Inr ([], [WARN_HTTP (status_code r) (take 160 (body_text r))])"
    "\<forall>r e. reply = Inr r \<and> status_code r = 200 \<and> json r = Inl e \<longrightarrow>
         search_vinted reply = Inr ([], [ERR_search_vinted e])"
    "\<forall>r. reply = Inr r \<and> status_code r = 200 \<and> json r = Inr Json_not_object \<longrightarrow>
         search_vinted reply = Inr ([], [ERR_search_vinted AttributeError])"
    by (simp_all add: search_vinted_def try_except_def)
  have t: "TELEGRAM_TOKEN cred = [] \<or> TELEGRAM_CHAT_ID cred = [] \<longrightarrow>
         send_telegram cred answer msg = Inr [Telegram_not_configured msg]"
    "\<forall>e. TELEGRAM_TOKEN cred \<noteq> [] \<and> TELEGRAM_CHAT_ID cred \<noteq> [] \<and> answer = Inl e \<longrightarrow>
         send_telegram cred answer msg = Inr [ERR_Telegram e]"
    "\<forall>r. TELEGRAM_TOKEN cred \<noteq> [] \<and> TELEGRAM_CHAT_ID cred \<noteq> [] \<and> answer = Inr r \<and>
         300 \<le> status_code r \<longrightarrow>
         send_telegram cred answer msg = Inr [ERR_Telegram_status (status_code r)]"
    by (simp_all add: send_telegram_def try_except_def)
  have l: "f = No_file \<or> f = Not_json \<or> f = Json_other \<longrightarrow> load_seen f = Inr {}"
    by (auto simp: load_seen_def try_except_def)
  have w: "d = Open_fails \<longrightarrow> save_seen d seen_ids f = Inr (f, [WARN_save_seen OSError])"
    "d = Write_fails \<longrightarrow> (\<exists>e. save_seen d seen_ids f = Inr (Not_json, [WARN_save_seen e]))"
    by (auto simp: save_seen_def split: sum.splits)
  show ?thesis
    using search_vinted_total [of reply] send_telegram_total [of cred answer msg]
      load_seen_total [of f] save_seen_total [of d seen_ids f] main_total [of cfg f first cycs]
      s t l w
    by blast
qed

theorem io_failures_contained_witness:
  "search_vinted (Inl RequestException) = Inr ([], [ERR_search_vinted RequestException])
   \<and> search_vinted (Inr \<lparr>status_code = 403, body_text = ''Forbidden'', json = Inl JSONDecodeError\<rparr>)
       = Inr ([], [WARN_HTTP 403 ''Forbidden''])
   \<and> send_telegram \<lparr>TELEGRAM_TOKEN = [], TELEGRAM_CHAT_ID = []\<rparr> (Inl RequestException) [Banner]
       = Inr [Telegram_not_configured [Banner]]
   \<and> send_telegram \<lparr>TELEGRAM_TOKEN = ''t'', TELEGRAM_CHAT_ID = ''c''\<rparr> (Inl RequestException) [Banner]
       = Inr [ERR_Telegram RequestException]
   \<and> load_seen No_file = Inr {}
   \<and> save_seen Open_fails {IdInt 1} No_file = Inr (No_file, [WARN_save_seen OSError])"
  using
    io_failures_contained [of "Inl RequestException"
      "\<lparr>TELEGRAM_TOKEN = [], TELEGRAM_CHAT_ID = []\<rparr>" "Inl RequestException" "[Banner]"
      No_file Open_fails "{IdInt 1}"]
    io_failures_contained [of
      "Inr \<lparr>status_code = 403, body_text = ''Forbidden'', json = Inl JSONDecodeError\<rparr>"
      "\<lparr>TELEGRAM_TOKEN = ''t'', TELEGRAM_CHAT_ID = ''c''\<rparr>" "Inl RequestException" "[Banner]"
      No_file Open_fails "{IdInt 1}"]
  by simp

section \<open>Properties of the scan\<close>

































end
